theory Spec2Isabelle
  imports Complex_Main "HOL-Library.Sublist"
begin

section \<open>The voice assistant of voice-assistant-code.py\<close>

text \<open>
  The class \<open>VoiceAssistant\<close> is embedded as a record of its fields together with the
  effects it leaves behind (what was spoken, what was written to the command log, which
  URLs were opened). Every method becomes a function that takes the outcome of the
  external calls it makes (microphone and recogniser, clock, encyclopedia, random
  generator, file system) as arguments and returns the updated record, or the exception
  it raises together with the record at that moment.

  Modelling decisions:
  \<^item> a string is the list of the bytes of its UTF-8 encoding, under which emptiness and
    the containment of one string in another are those of the Python strings;
  \<^item> \<open>str.lower\<close>, which maps by the Unicode tables of the interpreter, and the
    subtraction of two floats, which rounds, are not defined here: both are taken as
    parameters, the fields of the record \<open>runtime\<close>;
  \<^item> a reading of \<open>time.time()\<close> is the real number the float stands for;
  \<^item> a value read from a JSON file is a \<open>json\<close> term;
  \<^item> the speech engine, the browser and the recogniser raise nothing but the exceptions
    the source names; console output (\<open>print\<close>) is not recorded.
\<close>

subsection \<open>Values loaded from JSON, and the Python operations applied to them\<close>

datatype json =
    JNull
  | JBool bool
  | JInt int
  | JFloat real
  | JNaN
  | JInfinity bool
  | JStr string
  | JList "json list"
  | JObj "(string \<times> json) list"

datatype py_error =
    KeyError
  | TypeError
  | IndexError
  | FileNotFoundError
  | PermissionError
  | IsADirectoryError
  | UnicodeDecodeError
  | JSONDecodeError
  | RecursionError
  | ValueError

text \<open>
  \<open>v[key]\<close> for a string key: only a dict can be subscripted by a string. \<open>JObj\<close> lists
  the items of the dict that was loaded, each key once.
\<close>

fun subscript :: "json \<Rightarrow> string \<Rightarrow> py_error + json" where
  "subscript (JObj kvs) key = (case map_of kvs key of None \<Rightarrow> Inl KeyError | Some v \<Rightarrow> Inr v)"
| "subscript _ key = Inl TypeError"

text \<open>The truth value Python gives a value in \<open>if v:\<close>.\<close>

fun truthy :: "json \<Rightarrow> bool" where
  "truthy JNull = False"
| "truthy (JBool b) = b"
| "truthy (JInt n) = (n \<noteq> 0)"
| "truthy (JFloat x) = (x \<noteq> 0)"
| "truthy JNaN = True"
| "truthy (JInfinity negative) = True"
| "truthy (JStr s) = (s \<noteq> [])"
| "truthy (JList xs) = (xs \<noteq> [])"
| "truthy (JObj kvs) = (kvs \<noteq> [])"

text \<open>
  The characters of a string: in UTF-8 a byte from 0x80 to 0xBF continues the character
  begun before it, and every other byte begins one.
\<close>

definition is_continuation :: "char \<Rightarrow> bool" where
  "is_continuation c = (128 \<le> (of_char c :: nat) \<and> (of_char c :: nat) < 192)"

function utf8_chars :: "string \<Rightarrow> string list" where
  "utf8_chars [] = []"
| "utf8_chars (c # cs) =
     (c # takeWhile is_continuation cs) # utf8_chars (dropWhile is_continuation cs)"
  by pat_completeness auto
termination
  by (relation "measure length") (simp_all add: length_dropWhile_le less_Suc_eq_le)

text \<open>
  \<open>random.choice(seq)\<close>, the random generator's draw being the argument \<open>r\<close>:
  an empty sequence raises IndexError, a value without a length raises TypeError, a
  string yields one of its characters, and a non-empty dict is subscripted by an
  integer, which is never one of its (string) keys.
\<close>

fun random_choice :: "json \<Rightarrow> nat \<Rightarrow> py_error + json" where
  "random_choice (JList xs) r = (if xs = [] then Inl IndexError else Inr (xs ! (r mod length xs)))"
| "random_choice (JStr s) r =
     (if s = [] then Inl IndexError
      else Inr (JStr (utf8_chars s ! (r mod length (utf8_chars s)))))"
| "random_choice (JObj kvs) r = (if kvs = [] then Inl IndexError else Inl KeyError)"
| "random_choice _ r = Inl TypeError"

subsection \<open>Strings and the runtime\<close>

text \<open>
  What the interpreter supplies: \<open>str.lower\<close>, and the subtraction of two floats.
\<close>

record runtime =
  str_lower :: "string \<Rightarrow> string"
  float_sub :: "real \<Rightarrow> real \<Rightarrow> real"

text \<open>\<open>needle in hay\<close> on strings: \<open>needle\<close> occurs as a contiguous part of \<open>hay\<close>.\<close>

fun starts_with :: "string \<Rightarrow> string \<Rightarrow> bool" where
  "starts_with [] hay = True"
| "starts_with (c # cs) [] = False"
| "starts_with (c # cs) (h # hs) = (c = h \<and> starts_with cs hs)"

fun str_in :: "string \<Rightarrow> string \<Rightarrow> bool" where
  "str_in needle [] = (needle = [])"
| "str_in needle (h # hs) = (starts_with needle (h # hs) \<or> str_in needle hs)"

subsection \<open>The assistant\<close>

record assistant =
  wake_word :: string
  timeout :: real
  is_active :: bool
  last_activation_time :: real
  config :: json
  responses :: json
  spoken :: "json list"
  command_log :: "string list"
  opened :: "string list"

text \<open>A method returns its value and the assistant, or the exception and the assistant.\<close>

type_synonym 'a result = "(py_error \<times> assistant) + ('a \<times> assistant)"

definition final_state :: "'a result \<Rightarrow> assistant" where
  "final_state r = (case r of Inl (e, s) \<Rightarrow> s | Inr (v, s) \<Rightarrow> s)"

subsection \<open>Loading the configuration and the responses\<close>

text \<open>
  Both loaders run \<open>with open(...) as f: return json.load(f)\<close> inside a \<open>try\<close>. What
  this body does is given from outside: it raises (\<open>open\<close>: FileNotFoundError,
  PermissionError, IsADirectoryError; \<open>json.load\<close>: UnicodeDecodeError on bytes that
  are no text, JSONDecodeError on a syntax error, RecursionError on nesting too deep,
  ValueError on an integer literal too long) or it returns the value read, which for the
  texts NaN, Infinity and -Infinity, no JSON, is a float. The handler catches
  FileNotFoundError and JSONDecodeError, and nothing else.
\<close>

type_synonym json_file = "py_error + json"

definition default_config :: json where
  "default_config = JObj
     [(''language'', JStr ''en-US''),
      (''log_commands'', JBool True),
      (''max_wikipedia_sentences'', JInt 2)]"

definition load_config :: "json_file \<Rightarrow> py_error + json" where
  "load_config body =
     (case body of
        Inl err \<Rightarrow>
          if err = FileNotFoundError \<or> err = JSONDecodeError then Inr default_config else Inl err
      | Inr loaded \<Rightarrow> Inr loaded)"

definition default_responses :: json where
  "default_responses = JObj
     [(''greetings'', JList
        [JStr ''I'm doing well, thank you!'',
         JStr ''I'm just a program, but thanks for asking!'',
         JStr ''Doing great! How about you?'']),
      (''jokes'', JList
        [JStr ''Why do programmers prefer dark mode? Because light attracts bugs!'',
         JStr ''I told my computer I needed a break, and now it won't stop sending me vacation ads.'',
         JStr ''What's a computer's favorite snack? Microchips!'',
         JStr ''How many programmers does it take to change a light bulb? None, that's a hardware problem.'',
         JStr ''Why was the JavaScript developer sad? Because he didn't know how to Object.create(happiness);'']),
      (''quotes'', JList
        [JStr ''The greatest glory in living lies not in never falling, but in rising every time we fall.'',
         JStr ''The way to get started is to quit talking and begin doing.'',
         JStr ''Your time is limited, so don't waste it living someone else's life.'',
         JStr ''If life were predictable it would cease to be life, and be without flavor.'',
         JStr ''Spread love everywhere you go. Let no one ever come to you without leaving happier.'',
         JStr ''When you reach the end of your rope, tie a knot in it and hang on.'']),
      (''preferences'', JList
        [JStr ''I enjoy helping you with your questions.'',
         JStr ''I love learning new things from you.'',
         JStr ''I like to keep you entertained!'']),
      (''unknown_command'', JList
        [JStr ''I'm sorry, I can't perform that command.'',
         JStr ''I don't understand that instruction.'',
         JStr ''That's beyond my capabilities right now.''])]"

definition load_responses :: "json_file \<Rightarrow> py_error + json" where
  "load_responses body =
     (case body of
        Inl err \<Rightarrow>
          if err = FileNotFoundError \<or> err = JSONDecodeError then Inr default_responses else Inl err
      | Inr loaded \<Rightarrow> Inr loaded)"

text \<open>
  \<open>__init__\<close>: the wake word is stored lowercased, the session starts idle. The voice
  selection only configures the speech engine and is left out.
\<close>

definition init :: "runtime \<Rightarrow> string \<Rightarrow> real \<Rightarrow> json_file \<Rightarrow> json_file \<Rightarrow> py_error + assistant" where
  "init rt wake_word0 timeout0 config_file responses_file =
     (case load_config config_file of
        Inl e \<Rightarrow> Inl e
      | Inr c \<Rightarrow>
          (case load_responses responses_file of
             Inl e \<Rightarrow> Inl e
           | Inr r \<Rightarrow>
               Inr \<lparr>wake_word = str_lower rt wake_word0, timeout = timeout0, is_active = False,
                    last_activation_time = 0, config = c, responses = r,
                    spoken = [], command_log = [], opened = []\<rparr>))"

subsection \<open>Speaking and listening\<close>

definition speak :: "json \<Rightarrow> assistant \<Rightarrow> assistant" where
  "speak text s = s\<lparr>spoken := spoken s @ [text]\<rparr>"

text \<open>
  One capture of the microphone followed by the recogniser: \<open>recognizer.listen\<close> raises
  WaitTimeoutError when nothing is heard in time, \<open>recognize_google\<close> returns the text
  or raises UnknownValueError or RequestError.
\<close>

datatype listen_result =
    Heard string
  | UnknownValueError
  | RequestError
  | WaitTimeoutError

text \<open>
  \<open>listen_for_wake_word\<close>, given what the microphone yields and the reading of the
  clock in the timeout check. The argument \<open>self.config["language"]\<close> is evaluated once
  audio was captured, outside the reach of the handlers for the recogniser's exceptions.
\<close>

definition listen_for_wake_word :: "runtime \<Rightarrow> listen_result \<Rightarrow> real \<Rightarrow> assistant \<Rightarrow> bool result" where
  "listen_for_wake_word rt heard now s =
     (let check_for_timeout =
            (if is_active s \<and> float_sub rt now (last_activation_time s) > timeout s
             then Inr (False, speak (JStr ''Timing out due to inactivity.'') (s\<lparr>is_active := False\<rparr>))
             else Inr (False, s))
      in if heard = WaitTimeoutError then Inr (False, s)
         else
           (case subscript (config s) ''language'' of
              Inl e \<Rightarrow> Inl (e, s)
            | Inr language \<Rightarrow>
                (case heard of
                   Heard text \<Rightarrow>
                     if str_in (wake_word s) (str_lower rt text) then Inr (True, s)
                     else check_for_timeout
                 | UnknownValueError \<Rightarrow> check_for_timeout
                 | RequestError \<Rightarrow> Inr (False, s)
                 | WaitTimeoutError \<Rightarrow> Inr (False, s))))"

definition listen_for_command :: "runtime \<Rightarrow> listen_result \<Rightarrow> assistant \<Rightarrow> string result" where
  "listen_for_command rt heard s =
     (let s1 = speak (JStr ''How can I help you?'') s
      in if heard = WaitTimeoutError
         then Inr ([], speak (JStr ''I didn't hear a command.'') s1)
         else
           (case subscript (config s1) ''language'' of
              Inl e \<Rightarrow> Inl (e, s1)
            | Inr language \<Rightarrow>
                (case heard of
                   Heard query \<Rightarrow> Inr (str_lower rt query, s1)
                 | UnknownValueError \<Rightarrow>
                     Inr ([], speak (JStr ''Sorry, I could not understand that.'') s1)
                 | RequestError \<Rightarrow>
                     Inr ([], speak (JStr
                       ''Sorry, there was an error with the speech recognition service.'') s1)
                 | WaitTimeoutError \<Rightarrow>
                     Inr ([], speak (JStr ''I didn't hear a command.'') s1))))"

subsection \<open>The command handlers\<close>

datatype wiki_result =
    Summary string
  | DisambiguationError
  | PageError
  | OtherException

text \<open>
  What the world supplies to one call of \<open>process_command\<close>: the clock, whether the log
  file can be written and the timestamp put in it, what the blocking sub-listen of a
  handler yields, the encyclopedia (\<open>wikipedia.summary(topic, sentences=n)\<close>), the draw
  of the random generator, and the formatted time and date.
\<close>

record env =
  clock :: real
  log_write_ok :: bool
  timestamp :: string
  sub_listen :: listen_result
  wikipedia_summary :: "string \<Rightarrow> json \<Rightarrow> wiki_result"
  draw :: nat
  time_hhmm :: string
  today :: string

text \<open>
  \<open>_search_wikipedia\<close>: the lookup of the configuration key is inside the \<open>try\<close>, so a
  missing key ends in the handler for \<open>Exception\<close> as well.
\<close>

definition search_wikipedia :: "string \<Rightarrow> env \<Rightarrow> assistant \<Rightarrow> assistant" where
  "search_wikipedia topic e s =
     (case subscript (config s) ''max_wikipedia_sentences'' of
        Inl err \<Rightarrow> speak (JStr ''Sorry, something went wrong with the Wikipedia search.'') s
      | Inr sentences \<Rightarrow>
          (case wikipedia_summary e topic sentences of
             Summary summary \<Rightarrow> speak (JStr summary) s
           | DisambiguationError \<Rightarrow>
               speak (JStr ''The topic is ambiguous, please be more specific.'') s
           | PageError \<Rightarrow>
               speak (JStr ''Unfortunately, there is no page with that title.'') s
           | OtherException \<Rightarrow>
               speak (JStr ''Sorry, something went wrong with the Wikipedia search.'') s))"

definition tell_time :: "env \<Rightarrow> assistant \<Rightarrow> assistant" where
  "tell_time e s = speak (JStr (''The current time is '' @ time_hhmm e @ ''.'')) s"

definition tell_date :: "env \<Rightarrow> assistant \<Rightarrow> assistant" where
  "tell_date e s = speak (JStr (''Today's date is '' @ today e @ ''.'')) s"

definition web_search :: "string \<Rightarrow> assistant \<Rightarrow> assistant" where
  "web_search query s =
     (let s1 = speak (JStr (''Searching for '' @ query @ '' on Google.'')) s;
          s2 = s1\<lparr>opened := opened s1 @ [''https://www.google.com/search?q='' @ query]\<rparr>
      in speak (JStr ''Here are the search results.'') s2)"

definition change_wake_word :: "runtime \<Rightarrow> env \<Rightarrow> assistant \<Rightarrow> unit result" where
  "change_wake_word rt e s =
     (let s1 = speak (JStr ''What would you like to set as the new wake word?'') s
      in case listen_for_command rt (sub_listen e) s1 of
           Inl err \<Rightarrow> Inl err
         | Inr (new_wake_word, s2) \<Rightarrow>
             if new_wake_word \<noteq> []
             then Inr ((), speak (JStr (''Wake word changed to '' @ new_wake_word))
                             (s2\<lparr>wake_word := str_lower rt new_wake_word\<rparr>))
             else Inr ((), s2))"

definition log_command :: "string \<Rightarrow> env \<Rightarrow> assistant \<Rightarrow> assistant" where
  "log_command command e s =
     (if log_write_ok e
      then s\<lparr>command_log := command_log s @ [timestamp e @ '': '' @ command @ [CHR 0x0A]]\<rparr>
      else s)"

text \<open>\<open>self.speak(random.choice(self.responses[key]))\<close>, as five branches have it.\<close>

definition speak_random :: "string \<Rightarrow> env \<Rightarrow> assistant \<Rightarrow> bool result" where
  "speak_random key e s =
     (case subscript (responses s) key of
        Inl err \<Rightarrow> Inl (err, s)
      | Inr seq \<Rightarrow>
          (case random_choice seq (draw e) of
             Inl err \<Rightarrow> Inl (err, s)
           | Inr text \<Rightarrow> Inr (True, speak text s)))"

subsection \<open>The dispatcher\<close>

text \<open>
  \<open>process_command\<close>: the timestamp is reset, the command is logged when the
  configuration says so, and the \<open>if\<close>/\<open>elif\<close> chain runs the first branch whose
  test succeeds. A handler that listens again uses the sub-listen of the environment.
\<close>

definition process_command :: "runtime \<Rightarrow> string \<Rightarrow> env \<Rightarrow> assistant \<Rightarrow> bool result" where
  "process_command rt query e s =
     (let s1 = s\<lparr>last_activation_time := clock e\<rparr>
      in case subscript (config s1) ''log_commands'' of
           Inl err \<Rightarrow> Inl (err, s1)
         | Inr flag \<Rightarrow>
             (let s2 = (if truthy flag then log_command query e s1 else s1)
              in if str_in ''exit'' query \<or> str_in ''goodbye'' query \<or> str_in ''bye'' query then
                   Inr (True, (speak (JStr ''Goodbye!'') s2)\<lparr>is_active := False\<rparr>)
                 else if str_in ''sleep'' query \<or> str_in ''deactivate'' query then
                   Inr (True, (speak (JStr
                     ''Going to sleep. Say the wake word to activate me again.'') s2)
                       \<lparr>is_active := False\<rparr>)
                 else if str_in ''wikipedia'' query then
                   (case listen_for_command rt (sub_listen e)
                           (speak (JStr ''What would you like to search on Wikipedia?'') s2) of
                      Inl err \<Rightarrow> Inl err
                    | Inr (topic, s3) \<Rightarrow>
                        Inr (True, if topic \<noteq> [] then search_wikipedia topic e s3 else s3))
                 else if str_in ''time'' query then
                   Inr (True, tell_time e s2)
                 else if str_in ''date'' query then
                   Inr (True, tell_date e s2)
                 else if str_in ''how are you'' query then
                   speak_random ''greetings'' e s2
                 else if str_in ''what is your name'' query \<or> str_in ''who are you'' query then
                   Inr (True, speak (JStr
                     ''I am your voice assistant, activated by saying the wake word.'') s2)
                 else if str_in ''search'' query then
                   (case listen_for_command rt (sub_listen e)
                           (speak (JStr ''What do you want to search for on Google?'') s2) of
                      Inl err \<Rightarrow> Inl err
                    | Inr (search_query, s3) \<Rightarrow>
                        Inr (True, if search_query \<noteq> [] then web_search search_query s3 else s3))
                 else if str_in ''tell me a joke'' query \<or> str_in ''joke'' query then
                   speak_random ''jokes'' e s2
                 else if str_in ''give me a quote'' query \<or> str_in ''quote'' query then
                   speak_random ''quotes'' e s2
                 else if str_in ''what do you like to do'' query \<or> str_in ''your hobbies'' query then
                   speak_random ''preferences'' e s2
                 else if str_in ''change wake word'' query then
                   (case change_wake_word rt e s2 of
                      Inl err \<Rightarrow> Inl err
                    | Inr (u, s3) \<Rightarrow> Inr (True, s3))
                 else
                   speak_random ''unknown_command'' e s2))"

subsection \<open>The main loop\<close>

text \<open>
  What the world supplies to one pass of the loop of \<open>run\<close>: the capture of the wake-word
  poll and the clock read in its timeout check, the clock read on activation, the
  capture of the command, and the environment of \<open>process_command\<close>.
\<close>

record tick_env =
  wake_listen :: listen_result
  wake_clock :: real
  activation_clock :: real
  command_listen :: listen_result
  command_env :: env

definition tick :: "runtime \<Rightarrow> tick_env \<Rightarrow> assistant \<Rightarrow> unit result" where
  "tick rt t s =
     (case (if \<not> is_active s
            then (case listen_for_wake_word rt (wake_listen t) (wake_clock t) s of
                    Inl err \<Rightarrow> Inl err
                  | Inr (detected, s1) \<Rightarrow>
                      Inr ((), if detected
                               then s1\<lparr>is_active := True,
                                        last_activation_time := activation_clock t\<rparr>
                               else s1))
            else Inr ((), s)) of
        Inl err \<Rightarrow> Inl err
      | Inr (u, s2) \<Rightarrow>
          if is_active s2
          then (case listen_for_command rt (command_listen t) s2 of
                  Inl err \<Rightarrow> Inl err
                | Inr (command, s3) \<Rightarrow>
                    if command \<noteq> []
                    then (case process_command rt command (command_env t) s3 of
                            Inl err \<Rightarrow> Inl err
                          | Inr (continue, s4) \<Rightarrow> Inr ((), s4))
                    else Inr ((), s3))
          else Inr ((), s2))"

text \<open>
  \<open>run\<close> loops for ever; the model runs the passes of a finite list of environments and
  says whether the loop is still running after them or was ended by an exception, which
  the handler for \<open>Exception\<close> announces. An interrupt from the keyboard is not modelled.
\<close>

datatype run_state =
    Running assistant
  | Stopped assistant

fun run_loop :: "runtime \<Rightarrow> tick_env list \<Rightarrow> assistant \<Rightarrow> run_state" where
  "run_loop rt [] s = Running s"
| "run_loop rt (t # ts) s =
     (case tick rt t s of
        Inl (err, s') \<Rightarrow>
          Stopped (speak (JStr ''I encountered an error and need to shut down.'') s')
      | Inr (u, s') \<Rightarrow> run_loop rt ts s')"

definition run :: "runtime \<Rightarrow> tick_env list \<Rightarrow> assistant \<Rightarrow> run_state" where
  "run rt ts s =
     run_loop rt ts
       (speak (JStr (''Voice assistant initialized. Say '' @ [CHR 0x27] @ wake_word s
                      @ [CHR 0x27] @ '' to activate me.'')) s)"


subsection \<open>Notions the properties are stated with\<close>

text \<open>The value a method returns, when it does not raise.\<close>

definition returned :: "'a result \<Rightarrow> 'a option" where
  "returned r = (case r of Inl err \<Rightarrow> None | Inr (v, s) \<Rightarrow> Some v)"

text \<open>
  Containment with the case folded by \<open>str.lower\<close>: the lowercased wake word occurs in
  the lowercased utterance.
\<close>

definition occurs_ignoring_case :: "runtime \<Rightarrow> string \<Rightarrow> string \<Rightarrow> bool" where
  "occurs_ignoring_case rt w text = sublist (str_lower rt w) (str_lower rt text)"

text \<open>
  On ASCII text the case of a letter is a matter of one bit, and case-insensitive
  containment needs no table: \<open>A\<close> to \<open>Z\<close> are mapped to \<open>a\<close> to \<open>z\<close> and every other
  character is kept.
\<close>

definition is_ascii :: "string \<Rightarrow> bool" where
  "is_ascii x = list_all (\<lambda>c. (of_char c :: nat) < 128) x"

definition ascii_lower_char :: "char \<Rightarrow> char" where
  "ascii_lower_char c =
     (let n = (of_char c :: nat) in if 65 \<le> n \<and> n \<le> 90 then char_of (n + 32) else c)"

definition ascii_lower :: "string \<Rightarrow> string" where
  "ascii_lower x = map ascii_lower_char x"

definition occurs_ignoring_ascii_case :: "string \<Rightarrow> string \<Rightarrow> bool" where
  "occurs_ignoring_ascii_case w text = sublist (ascii_lower w) (ascii_lower text)"

text \<open>What the properties ask of \<open>str.lower\<close>: on ASCII text it is the ASCII mapping;\<close>

definition lower_on_ascii :: "runtime \<Rightarrow> bool" where
  "lower_on_ascii rt = (\<forall>x. is_ascii x \<longrightarrow> str_lower rt x = ascii_lower x)"

text \<open>
  lowercasing twice is lowercasing once, and only the empty string is lowercased to the
  empty string.
\<close>

definition lower_laws :: "runtime \<Rightarrow> bool" where
  "lower_laws rt =
     ((\<forall>x. str_lower rt (str_lower rt x) = str_lower rt x)
      \<and> (\<forall>x. (str_lower rt x = []) = (x = [])))"


text \<open>The result of a method with the command log of its assistant replaced.\<close>

definition with_log :: "string list \<Rightarrow> 'a result \<Rightarrow> 'a result" where
  "with_log l r =
     (case r of
        Inl (err, s) \<Rightarrow> Inl (err, s\<lparr>command_log := l\<rparr>)
      | Inr (v, s) \<Rightarrow> Inr (v, s\<lparr>command_log := l\<rparr>))"

subsection \<open>The dispatcher as the specification words it\<close>

text \<open>
  The specification describes the dispatcher as a list of intents in a fixed priority
  order, each with the phrases that trigger it, of which the first that matches wins,
  and the fallback when none does.
\<close>

datatype intent =
    Exit | Sleep | Wikipedia | Time | Date | HowAreYou | Name | Search | Joke | Quote
  | Hobbies | ChangeWakeWord | Unknown

definition intent_table :: "(intent \<times> string list) list" where
  "intent_table =
     [(Exit, [''exit'', ''goodbye'', ''bye'']),
      (Sleep, [''sleep'', ''deactivate'']),
      (Wikipedia, [''wikipedia'']),
      (Time, [''time'']),
      (Date, [''date'']),
      (HowAreYou, [''how are you'']),
      (Name, [''what is your name'', ''who are you'']),
      (Search, [''search'']),
      (Joke, [''tell me a joke'', ''joke'']),
      (Quote, [''give me a quote'', ''quote'']),
      (Hobbies, [''what do you like to do'', ''your hobbies'']),
      (ChangeWakeWord, [''change wake word''])]"

fun first_match :: "(intent \<times> string list) list \<Rightarrow> string \<Rightarrow> intent" where
  "first_match [] query = Unknown"
| "first_match ((i, phrases) # rest) query =
     (if list_ex (\<lambda>phrase. str_in phrase query) phrases then i else first_match rest query)"

definition select_intent :: "string \<Rightarrow> intent" where
  "select_intent query = first_match intent_table query"

text \<open>What the handler of each intent does, once the intent is selected.\<close>

fun intent_handler :: "runtime \<Rightarrow> intent \<Rightarrow> env \<Rightarrow> assistant \<Rightarrow> bool result" where
  "intent_handler rt Exit e s = Inr (True, (speak (JStr ''Goodbye!'') s)\<lparr>is_active := False\<rparr>)"
| "intent_handler rt Sleep e s =
     Inr (True, (speak (JStr ''Going to sleep. Say the wake word to activate me again.'') s)
                  \<lparr>is_active := False\<rparr>)"
| "intent_handler rt Wikipedia e s =
     (case listen_for_command rt (sub_listen e)
             (speak (JStr ''What would you like to search on Wikipedia?'') s) of
        Inl err \<Rightarrow> Inl err
      | Inr (topic, s') \<Rightarrow>
          Inr (True, if topic \<noteq> [] then search_wikipedia topic e s' else s'))"
| "intent_handler rt Time e s = Inr (True, tell_time e s)"
| "intent_handler rt Date e s = Inr (True, tell_date e s)"
| "intent_handler rt HowAreYou e s = speak_random ''greetings'' e s"
| "intent_handler rt Name e s =
     Inr (True, speak (JStr ''I am your voice assistant, activated by saying the wake word.'') s)"
| "intent_handler rt Search e s =
     (case listen_for_command rt (sub_listen e)
             (speak (JStr ''What do you want to search for on Google?'') s) of
        Inl err \<Rightarrow> Inl err
      | Inr (search_query, s') \<Rightarrow>
          Inr (True, if search_query \<noteq> [] then web_search search_query s' else s'))"
| "intent_handler rt Joke e s = speak_random ''jokes'' e s"
| "intent_handler rt Quote e s = speak_random ''quotes'' e s"
| "intent_handler rt Hobbies e s = speak_random ''preferences'' e s"
| "intent_handler rt ChangeWakeWord e s =
     (case change_wake_word rt e s of
        Inl err \<Rightarrow> Inl err
      | Inr (u, s') \<Rightarrow> Inr (True, s'))"
| "intent_handler rt Unknown e s = speak_random ''unknown_command'' e s"

text \<open>
  What every invocation does first, whatever the intent: the timestamp is reset, and the
  utterance is logged when the value \<open>flag\<close> of \<open>log_commands\<close> is true.
\<close>

definition prologue :: "string \<Rightarrow> env \<Rightarrow> json \<Rightarrow> assistant \<Rightarrow> assistant" where
  "prologue query e flag s =
     (let s1 = s\<lparr>last_activation_time := clock e\<rparr>
      in if truthy flag then log_command query e s1 else s1)"

subsection \<open>Concrete sessions and environments\<close>

text \<open>
  A runtime for the examples, which are ASCII text and clock readings whose difference
  is a float: there it lowercases and subtracts as Python does.
\<close>

definition ascii_runtime :: runtime where
  "ascii_runtime = \<lparr>str_lower = ascii_lower, float_sub = (\<lambda>a b. a - b)\<rparr>"

text \<open>
  Two Greek strings, capital omicron and capital sigma, and the same followed by another
  capital omicron, in UTF-8; and a runtime that lowercases them as Python does, where a
  capital sigma becomes the final small sigma at the end of a word and the small sigma
  elsewhere.
\<close>

definition omicron_sigma :: string where
  "omicron_sigma = [CHR 0xCE, CHR 0x9F, CHR 0xCE, CHR 0xA3]"

definition omicron_sigma_omicron :: string where
  "omicron_sigma_omicron = [CHR 0xCE, CHR 0x9F, CHR 0xCE, CHR 0xA3, CHR 0xCE, CHR 0x9F]"

definition greek_runtime :: runtime where
  "greek_runtime =
     \<lparr>str_lower = (\<lambda>x.
        if x = omicron_sigma then [CHR 0xCE, CHR 0xBF, CHR 0xCF, CHR 0x82]
        else if x = omicron_sigma_omicron
          then [CHR 0xCE, CHR 0xBF, CHR 0xCF, CHR 0x83, CHR 0xCE, CHR 0xBF]
        else ascii_lower x),
      float_sub = (\<lambda>a b. a - b)\<rparr>"

text \<open>The assistant that \<open>main\<close> constructs when neither JSON file exists.\<close>

definition main_assistant :: assistant where
  "main_assistant =
     \<lparr>wake_word = ''hey assistant'', timeout = 60, is_active = False,
      last_activation_time = 0, config = default_config, responses = default_responses,
      spoken = [], command_log = [], opened = []\<rparr>"

text \<open>The same assistant in an active session that began at time 0.\<close>

definition awake :: assistant where
  "awake = main_assistant\<lparr>is_active := True, last_activation_time := 0\<rparr>"

text \<open>
  The assistant constructed with the first Greek string as its wake word, on the Greek
  runtime.
\<close>

definition greek_assistant :: assistant where
  "greek_assistant = main_assistant\<lparr>wake_word := [CHR 0xCE, CHR 0xBF, CHR 0xCF, CHR 0x82]\<rparr>"

text \<open>An environment in which nothing is heard and no page is found.\<close>

definition quiet_env :: env where
  "quiet_env =
     \<lparr>clock = 5, log_write_ok = True, timestamp = ''2024-01-01 12:00:00'',
      sub_listen = WaitTimeoutError, wikipedia_summary = (\<lambda>topic n. PageError),
      draw = 0, time_hhmm = ''12:00'', today = ''2024-01-01''\<rparr>"

text \<open>A pass of the loop at time \<open>now\<close> in which the microphone hears nothing at all.\<close>

definition silent_tick :: "real \<Rightarrow> tick_env" where
  "silent_tick now =
     \<lparr>wake_listen = WaitTimeoutError, wake_clock = now, activation_clock = now,
      command_listen = WaitTimeoutError, command_env = quiet_env\<lparr>clock := now\<rparr>\<rparr>"

text \<open>A pass in which the wake-word poll hears the wake word and no command follows.\<close>

definition wake_tick :: "real \<Rightarrow> tick_env" where
  "wake_tick now = (silent_tick now)\<lparr>wake_listen := Heard ''hey assistant''\<rparr>"

text \<open>An encyclopedia with one page, one ambiguous title and one missing title.\<close>

definition example_wiki :: "string \<Rightarrow> json \<Rightarrow> wiki_result" where
  "example_wiki topic sentences =
     (if topic = ''python'' \<and> sentences = JInt 2
      then Summary ''Python is a programming language. It was first released in 1991.''
      else if topic = ''mercury'' then DisambiguationError
      else if topic = ''qwertyuiop'' then PageError
      else OtherException)"


text \<open>A pass of an active session in which the command heard is "Goodbye".\<close>

definition goodbye_tick :: tick_env where
  "goodbye_tick = (silent_tick 5)\<lparr>command_listen := Heard ''Goodbye''\<rparr>"

section \<open>Properties\<close>

subsection \<open>Strings\<close>

lemma starts_with_prefix: "starts_with xs ys = prefix xs ys"
  by (induction xs ys rule: starts_with.induct) auto

lemma str_in_sublist: "str_in xs ys = sublist xs ys"
  by (induction ys) (auto simp: starts_with_prefix sublist_Cons_right)

lemma ascii_lower_char_idem: "ascii_lower_char (ascii_lower_char c) = ascii_lower_char c"
  by (simp add: ascii_lower_char_def Let_def)

lemma ascii_lower_idem: "ascii_lower (ascii_lower w) = ascii_lower w"
  by (simp add: ascii_lower_def ascii_lower_char_idem)

lemma ascii_lower_eq_Nil: "(ascii_lower w = []) = (w = [])"
  by (simp add: ascii_lower_def)

lemma ascii_runtime_fields [simp]:
  "str_lower ascii_runtime = ascii_lower" "float_sub ascii_runtime a b = a - b"
  by (simp_all add: ascii_runtime_def)

lemma lower_laws_ascii: "lower_laws ascii_runtime"
  by (simp add: lower_laws_def ascii_lower_idem ascii_lower_eq_Nil)

lemma lower_on_ascii_ascii: "lower_on_ascii ascii_runtime"
  by (simp add: lower_on_ascii_def)

lemma lower_examples:
  "ascii_lower ''hey assistant'' = ''hey assistant''"
  "ascii_lower ''Hey Assistant'' = ''hey assistant''"
  "ascii_lower ''computer'' = ''computer''" "ascii_lower ''Computer'' = ''computer''"
  "ascii_lower ''Change wake word'' = ''change wake word''"
  "ascii_lower ''Goodbye'' = ''goodbye''"
  "ascii_lower ''ok computer do this'' = ''ok computer do this''"
  by code_simp+

subsection \<open>Configuration fallback\<close>

text \<open>
  C5, as the code has it: the loader returns the built-in defaults, language en-US,
  log_commands true and max_wikipedia_sentences 2, and raises nothing, when the file
  is missing (FileNotFoundError) and when the parser rejects its text with a
  JSONDecodeError; and these are the only failures that end in the defaults: any other
  exception of opening or parsing is raised by the loader, and a value that the parser
  returns is returned as it is.
\<close>

theorem load_config_fallback:
  "load_config (Inl FileNotFoundError) = Inr default_config
   \<and> load_config (Inl JSONDecodeError) = Inr default_config
   \<and> subscript default_config ''language'' = Inr (JStr ''en-US'')
   \<and> subscript default_config ''log_commands'' = Inr (JBool True)
   \<and> subscript default_config ''max_wikipedia_sentences'' = Inr (JInt 2)
   \<and> (load_config body = Inr default_config)
       = (body = Inl FileNotFoundError \<or> body = Inl JSONDecodeError \<or> body = Inr default_config)
   \<and> (load_config body = Inl err)
       = (body = Inl err \<and> err \<noteq> FileNotFoundError \<and> err \<noteq> JSONDecodeError)
   \<and> (load_config body = Inr loaded)
       = (body = Inr loaded
          \<or> (loaded = default_config
              \<and> (body = Inl FileNotFoundError \<or> body = Inl JSONDecodeError)))"
  by (cases body) (auto simp add: load_config_def default_config_def)

text \<open>
  Sources that are unreadable or malformed and do not end in the defaults: a file that
  may not be opened, and text nested too deep or with an integer too long, make the
  loader raise, and with it the constructor; the text NaN is read as a float.
\<close>

theorem load_config_other_outcomes:
  "load_config (Inl PermissionError) = Inl PermissionError
   \<and> load_config (Inl RecursionError) = Inl RecursionError
   \<and> load_config (Inl ValueError) = Inl ValueError
   \<and> load_config (Inr JNaN) = Inr JNaN
   \<and> load_config (Inr JNaN) \<noteq> Inr default_config
   \<and> init ascii_runtime ''hey assistant'' 60 (Inl PermissionError) (Inl FileNotFoundError)
       = Inl PermissionError"
  by (simp add: load_config_def init_def default_config_def)

subsection \<open>Basic facts about the model\<close>

lemma init_main:
  "init ascii_runtime ''Hey Assistant'' 60 (Inl FileNotFoundError) (Inl FileNotFoundError)
     = Inr main_assistant"
  by (simp add: init_def load_config_def load_responses_def main_assistant_def lower_examples)

lemma default_language: "subscript default_config ''language'' = Inr (JStr ''en-US'')"
  by (simp add: default_config_def)

lemma default_log_commands: "subscript default_config ''log_commands'' = Inr (JBool True)"
  by (simp add: default_config_def)

lemma default_max_sentences: "subscript default_config ''max_wikipedia_sentences'' = Inr (JInt 2)"
  by (simp add: default_config_def)

lemma main_fields [simp]:
  "wake_word main_assistant = ''hey assistant''" "timeout main_assistant = 60"
  "is_active main_assistant = False" "last_activation_time main_assistant = 0"
  "config main_assistant = default_config" "responses main_assistant = default_responses"
  "spoken main_assistant = []" "command_log main_assistant = []" "opened main_assistant = []"
  by (simp_all add: main_assistant_def)

lemma awake_fields [simp]:
  "wake_word awake = ''hey assistant''" "timeout awake = 60"
  "is_active awake = True" "last_activation_time awake = 0"
  "config awake = default_config" "responses awake = default_responses"
  "spoken awake = []" "command_log awake = []" "opened awake = []"
  by (simp_all add: awake_def)

lemma speak_fields [simp]:
  "wake_word (speak text s) = wake_word s" "timeout (speak text s) = timeout s"
  "is_active (speak text s) = is_active s"
  "last_activation_time (speak text s) = last_activation_time s"
  "config (speak text s) = config s" "responses (speak text s) = responses s"
  "spoken (speak text s) = spoken s @ [text]" "command_log (speak text s) = command_log s"
  "opened (speak text s) = opened s"
  by (simp_all add: speak_def)

lemma final_state_simps [simp]:
  "final_state (Inl (err, s)) = s" "final_state (Inr (v, s)) = s"
  by (simp_all add: final_state_def)

lemma with_log_simps [simp]:
  "with_log l (Inl (err, s)) = Inl (err, s\<lparr>command_log := l\<rparr>)"
  "with_log l (Inr (v, s)) = Inr (v, s\<lparr>command_log := l\<rparr>)"
  by (simp_all add: with_log_def)

lemma with_log_twice: "with_log l (with_log l' r) = with_log l r"
  by (simp add: with_log_def split: sum.splits prod.splits)

subsection \<open>Wake-word detection\<close>

lemma init_wake_word:
  assumes "init rt w t0 config_file responses_file = Inr s"
  shows "wake_word s = str_lower rt w"
  using assms by (auto simp add: init_def split: sum.splits)

text \<open>
  C3, as the code has it: on the assistant constructed with the wake word \<open>w\<close>, when
  the recogniser transcribes an utterance, the wake-word poll returns true if and only
  if the lowercased wake word occurs in the lowercased utterance as a substring, both
  lowercased by \<open>str.lower\<close>; for a wake word and an utterance of ASCII characters this
  is case-insensitive substring containment; and so it stays in every later state with
  the same wake word and configuration. The configuration has to hold the key
  \<open>language\<close>, which the call of the recogniser reads.
\<close>

theorem wake_word_detection:
  assumes "init rt w t0 config_file responses_file = Inr s"
      and "subscript (config s) ''language'' = Inr l"
  shows "returned (listen_for_wake_word rt (Heard text) now s)
           = Some (occurs_ignoring_case rt w text)
    \<and> (lower_on_ascii rt \<and> is_ascii w \<and> is_ascii text \<longrightarrow>
          returned (listen_for_wake_word rt (Heard text) now s)
            = Some (occurs_ignoring_ascii_case w text))
    \<and> (\<forall>s'. wake_word s' = wake_word s \<and> config s' = config s \<longrightarrow>
          returned (listen_for_wake_word rt (Heard text) now s')
            = Some (occurs_ignoring_case rt w text))"
proof -
  from assms(1) have w: "wake_word s = str_lower rt w"
    by (rule init_wake_word)
  with assms(2) have general:
    "returned (listen_for_wake_word rt (Heard text) now s) = Some (occurs_ignoring_case rt w text)"
    by (simp add: listen_for_wake_word_def returned_def occurs_ignoring_case_def
        str_in_sublist Let_def)
  have "occurs_ignoring_case rt w text = occurs_ignoring_ascii_case w text"
    if "lower_on_ascii rt" "is_ascii w" "is_ascii text"
    using that
    by (simp add: lower_on_ascii_def occurs_ignoring_case_def occurs_ignoring_ascii_case_def)
  moreover have "returned (listen_for_wake_word rt (Heard text) now s')
            = Some (occurs_ignoring_case rt w text)"
    if "wake_word s' = wake_word s" "config s' = config s" for s'
    using that w assms(2)
    by (simp add: listen_for_wake_word_def returned_def occurs_ignoring_case_def
        str_in_sublist Let_def)
  ultimately show ?thesis using general by simp
qed

lemma detect_example_1:
  "str_in ''hey assistant'' (ascii_lower ''ok hey assistant please help'')"
  by code_simp

lemma detect_example_2: "\<not> str_in ''hey assistant'' (ascii_lower ''hey assist'')"
  by code_simp

lemma detect_example_3:
  "str_in ''hey assistant'' (ascii_lower ''OK Hey Assistant, please help'')"
  by code_simp

lemma ascii_examples:
  "is_ascii ''Hey Assistant''" "is_ascii ''ok hey assistant please help''"
  "is_ascii ''hey assist''" "is_ascii ''OK Hey Assistant, please help''"
  by code_simp+

theorem wake_word_detection_witness:
  "init ascii_runtime ''Hey Assistant'' 60 (Inl FileNotFoundError) (Inl FileNotFoundError)
     = Inr main_assistant
   \<and> returned (listen_for_wake_word ascii_runtime (Heard ''ok hey assistant please help'') 0
        main_assistant) = Some True
   \<and> returned (listen_for_wake_word ascii_runtime (Heard ''hey assist'') 0 main_assistant)
     = Some False
   \<and> returned (listen_for_wake_word ascii_runtime (Heard ''OK Hey Assistant, please help'') 0
        main_assistant) = Some True"
proof -
  have cfg: "subscript (config main_assistant) ''language'' = Inr (JStr ''en-US'')"
    by (simp add: default_language)
  have det: "returned (listen_for_wake_word ascii_runtime (Heard utterance) 0 main_assistant)
               = Some (occurs_ignoring_ascii_case ''Hey Assistant'' utterance)"
    if "is_ascii utterance" for utterance
    using wake_word_detection [OF init_main cfg, of utterance 0] that
    by (auto simp add: lower_on_ascii_ascii ascii_examples)
  have "sublist (ascii_lower ''Hey Assistant'') (ascii_lower ''ok hey assistant please help'')"
    and "\<not> sublist (ascii_lower ''Hey Assistant'') (ascii_lower ''hey assist'')"
    and "sublist (ascii_lower ''Hey Assistant'') (ascii_lower ''OK Hey Assistant, please help'')"
    using detect_example_1 detect_example_2 detect_example_3
    by (simp_all add: lower_examples str_in_sublist)
  then show ?thesis
    by (simp add: init_main det ascii_examples occurs_ignoring_ascii_case_def)
qed

text \<open>
  With the Greek wake word the utterance that repeats it letter for letter, followed by
  one more letter, is not detected: the sigma of the wake word, at the end of its word,
  is lowercased to the final sigma, the sigma of the utterance is not.
\<close>

theorem sigma_not_detected:
  "init greek_runtime omicron_sigma 60 (Inl FileNotFoundError) (Inl FileNotFoundError)
     = Inr greek_assistant
   \<and> sublist omicron_sigma omicron_sigma_omicron
   \<and> returned (listen_for_wake_word greek_runtime (Heard omicron_sigma_omicron) 0 greek_assistant)
     = Some False"
proof -
  have "str_in omicron_sigma omicron_sigma_omicron"
    by (simp add: omicron_sigma_def omicron_sigma_omicron_def)
  then have "sublist omicron_sigma omicron_sigma_omicron"
    by (simp add: str_in_sublist)
  then show ?thesis
    by (simp add: init_def load_config_def load_responses_def greek_assistant_def
        main_assistant_def greek_runtime_def listen_for_wake_word_def returned_def
        default_config_def omicron_sigma_def omicron_sigma_omicron_def Let_def)
qed

subsection \<open>The timeout check of the wake-word poll\<close>

text \<open>
  A poll that hears nothing returns at once, whatever the clock and the session, and so
  does a poll that finds the recogniser out of reach; a poll that does not understand
  what it captured goes on to the timeout check.
\<close>

lemma silent_poll_keeps_state:
  "listen_for_wake_word rt WaitTimeoutError now s = Inr (False, s)"
  by (simp add: listen_for_wake_word_def Let_def)

lemma request_error_poll_keeps_state:
  assumes "subscript (config s) ''language'' = Inr l"
  shows "listen_for_wake_word rt RequestError now s = Inr (False, s)"
  using assms by (simp add: listen_for_wake_word_def Let_def)

lemma unknown_value_poll_checks_timeout:
  assumes "subscript (config s) ''language'' = Inr l"
  shows "listen_for_wake_word rt UnknownValueError now s =
           (if is_active s \<and> float_sub rt now (last_activation_time s) > timeout s
            then Inr (False, s\<lparr>is_active := False,
                                 spoken := spoken s @ [JStr ''Timing out due to inactivity.'']\<rparr>)
            else Inr (False, s))"
  using assms by (simp add: listen_for_wake_word_def speak_def Let_def)

text \<open>
  C4 fails on the code. The session has a timeout of 60 seconds and is active since time
  0. A poll at time 61 in which nothing is heard, the very case of inactivity, leaves
  the session active and speaks no notice, and so does a poll at time 61 in which the
  recogniser is out of reach: both return before the timeout check, which the poll
  reaches when the audio is not understood.
\<close>

theorem silent_poll_skips_timeout:
  "is_active awake \<and> timeout awake = 60 \<and> last_activation_time awake = 0
   \<and> listen_for_wake_word rt WaitTimeoutError 61 awake = Inr (False, awake)
   \<and> listen_for_wake_word rt RequestError 61 awake = Inr (False, awake)"
  by (simp add: silent_poll_keeps_state request_error_poll_keeps_state default_language)

subsection \<open>The main loop and the timeout\<close>

lemma tick_silent_active:
  assumes "is_active s" and "command_listen t = WaitTimeoutError"
  shows "tick rt t s =
           Inr ((), speak (JStr ''I didn't hear a command.'')
                      (speak (JStr ''How can I help you?'') s))"
  using assms by (simp add: tick_def listen_for_command_def Let_def)

lemma run_loop_silent:
  assumes "is_active s" and "list_all (\<lambda>t. command_listen t = WaitTimeoutError) ts"
  shows "\<exists>s'. run_loop rt ts s = Running s' \<and> is_active s'
           \<and> last_activation_time s' = last_activation_time s \<and> timeout s' = timeout s"
  using assms
proof (induction ts arbitrary: s)
  case Nil
  then show ?case by simp
next
  case (Cons t ts)
  let ?s1 = "speak (JStr ''I didn't hear a command.'') (speak (JStr ''How can I help you?'') s)"
  from Cons.prems have step: "tick rt t s = Inr ((), ?s1)"
    by (simp add: tick_silent_active)
  from Cons.prems have "is_active ?s1"
    and "list_all (\<lambda>t. command_listen t = WaitTimeoutError) ts"
    by simp_all
  from Cons.IH [OF this] obtain s' where
    "run_loop rt ts ?s1 = Running s'" "is_active s'"
    "last_activation_time s' = last_activation_time ?s1" "timeout s' = timeout ?s1"
    by blast
  with step show ?case by simp
qed

text \<open>
  The poll of a session that is not active leaves the assistant as it is, whatever is
  heard and whatever the clock says: in \<open>run\<close>, where the poll is made only then, its
  timeout branch is never taken.
\<close>

lemma idle_poll_keeps_state:
  assumes "\<not> is_active s"
  shows "final_state (listen_for_wake_word rt heard now s) = s"
  using assms
  by (simp add: listen_for_wake_word_def Let_def split: sum.splits listen_result.splits)

text \<open>
  C1 fails on the code. The assistant of \<open>main\<close> is activated by the wake word at time
  0, and in every later pass of the loop the command listener hears nothing. However
  many such passes follow, at whatever times, the loop is still running with the session
  active and the activation time still 0: \<open>run\<close> polls for the wake word, and with it
  checks the timeout, only while the session is not active. Of the runtime only the
  lowercasing of the wake word heard in the first pass is used, an ASCII string.
\<close>

theorem run_never_times_out:
  "\<exists>s'. run ascii_runtime (wake_tick 0 # map silent_tick nows) main_assistant = Running s'
      \<and> is_active s' \<and> last_activation_time s' = 0 \<and> timeout s' = 60"
proof -
  let ?s0 = "speak (JStr (''Voice assistant initialized. Say '' @ [CHR 0x27]
                      @ wake_word main_assistant @ [CHR 0x27] @ '' to activate me.''))
               main_assistant"
  let ?s1 = "speak (JStr ''I didn't hear a command.'') (speak (JStr ''How can I help you?'')
               (?s0\<lparr>is_active := True, last_activation_time := 0\<rparr>))"
  have "\<not> is_active ?s0" by simp
  then have first: "tick ascii_runtime (wake_tick 0) ?s0 = Inr ((), ?s1)"
    by (simp add: tick_def wake_tick_def silent_tick_def listen_for_wake_word_def
        listen_for_command_def default_language lower_examples Let_def)
  have "list_all (\<lambda>t. command_listen t = WaitTimeoutError) (map silent_tick nows)"
    by (simp add: list_all_iff silent_tick_def)
  moreover have "is_active ?s1" by simp
  ultimately obtain s' where "run_loop ascii_runtime (map silent_tick nows) ?s1 = Running s'" "is_active s'"
    "last_activation_time s' = last_activation_time ?s1" "timeout s' = timeout ?s1"
    using run_loop_silent by blast
  then show ?thesis
    using first by (simp add: run_def)
qed

subsection \<open>The dispatcher\<close>

lemma process_command_dispatch:
  "process_command rt query e s =
     (case subscript (config s) ''log_commands'' of
        Inl err \<Rightarrow> Inl (err, s\<lparr>last_activation_time := clock e\<rparr>)
      | Inr flag \<Rightarrow> intent_handler rt (select_intent query) e (prologue query e flag s))"
  by (simp add: process_command_def select_intent_def intent_table_def prologue_def Let_def
      split: sum.splits)

lemma select_joke_then_exit: "select_intent ''tell me a joke then exit'' = Exit"
  by (simp add: select_intent_def intent_table_def)

text \<open>
  C2: for every utterance the dispatcher does what the handler of exactly one intent
  does, namely of the first intent in the listed order one of whose phrases occurs in the
  utterance, or of the fallback when none occurs; the utterance "tell me a joke then
  exit" is handled by the exit intent. The configuration has to hold the key
  \<open>log_commands\<close>, which is read before the dispatch.
\<close>

theorem dispatch_first_match:
  assumes "subscript (config s) ''log_commands'' = Inr flag"
  shows "process_command rt query e s =
           intent_handler rt (select_intent query) e (prologue query e flag s)
    \<and> select_intent ''tell me a joke then exit'' = Exit
    \<and> process_command rt ''tell me a joke then exit'' e s =
        Inr (True, (speak (JStr ''Goodbye!'') (prologue ''tell me a joke then exit'' e flag s))
                      \<lparr>is_active := False\<rparr>)"
  using assms by (simp add: process_command_dispatch select_joke_then_exit)

theorem dispatch_first_match_witness:
  "process_command ascii_runtime ''tell me a joke then exit'' quiet_env awake =
     Inr (True, awake\<lparr>is_active := False, last_activation_time := 5,
            spoken := [JStr ''Goodbye!''],
            command_log := [''2024-01-01 12:00:00: tell me a joke then exit'' @ [CHR 0x0A]]\<rparr>)
   \<and> process_command ascii_runtime ''tell me a joke'' quiet_env awake =
     Inr (True, awake\<lparr>last_activation_time := 5,
            spoken := [JStr ''Why do programmers prefer dark mode? Because light attracts bugs!''],
            command_log := [''2024-01-01 12:00:00: tell me a joke'' @ [CHR 0x0A]]\<rparr>)"
proof -
  have joke: "select_intent ''tell me a joke'' = Joke"
    by (simp add: select_intent_def intent_table_def)
  have cfg: "subscript (config awake) ''log_commands'' = Inr (JBool True)"
    by (simp add: default_log_commands)
  from dispatch_first_match [OF cfg, of ascii_runtime "''tell me a joke''" quiet_env]
  show ?thesis
    by (simp add: joke prologue_def log_command_def quiet_env_def speak_def awake_def
        main_assistant_def speak_random_def default_responses_def Let_def)
qed

subsection \<open>What the handlers leave unchanged\<close>

text \<open>Listening for a command changes nothing but what was spoken.\<close>

lemma listen_for_command_state:
  "final_state (listen_for_command rt heard s) =
     s\<lparr>spoken := spoken (final_state (listen_for_command rt heard s))\<rparr>"
  by (cases heard) (simp_all add: listen_for_command_def speak_def Let_def split: sum.splits)

lemma listen_for_command_cases:
  "(\<exists>err sp. listen_for_command rt heard s = Inl (err, s\<lparr>spoken := sp\<rparr>))
   \<or> (\<exists>q sp. listen_for_command rt heard s = Inr (q, s\<lparr>spoken := sp\<rparr>))"
proof (cases "listen_for_command rt heard s")
  case (Inl a)
  obtain err s' where a: "a = (err, s')" by (cases a)
  with Inl listen_for_command_state [of rt heard s] have "s' = s\<lparr>spoken := spoken s'\<rparr>" by simp
  with Inl a show ?thesis by metis
next
  case (Inr b)
  obtain q s' where b: "b = (q, s')" by (cases b)
  with Inr listen_for_command_state [of rt heard s] have "s' = s\<lparr>spoken := spoken s'\<rparr>" by simp
  with Inr b show ?thesis by metis
qed

lemma keep_listen_then:
  assumes "\<And>q s'. last_activation_time (f q s') = last_activation_time s'"
      and "\<And>q s'. command_log (f q s') = command_log s'"
  shows "last_activation_time (final_state
           (case listen_for_command rt heard s of
              Inl err \<Rightarrow> Inl err | Inr (q, s') \<Rightarrow> Inr (True, f q s')))
          = last_activation_time s
    \<and> command_log (final_state
           (case listen_for_command rt heard s of
              Inl err \<Rightarrow> Inl err | Inr (q, s') \<Rightarrow> Inr (True, f q s')))
          = command_log s"
  using listen_for_command_cases [of rt heard s]
  by (elim disjE exE) (simp_all add: assms)

lemma keep_search_wikipedia:
  "last_activation_time (search_wikipedia topic e s) = last_activation_time s"
  "command_log (search_wikipedia topic e s) = command_log s"
  by (simp_all add: search_wikipedia_def split: sum.splits wiki_result.splits)

lemma keep_web_search:
  "last_activation_time (web_search q s) = last_activation_time s"
  "command_log (web_search q s) = command_log s"
  by (simp_all add: web_search_def Let_def)

lemma keep_speak_random:
  "last_activation_time (final_state (speak_random k e s)) = last_activation_time s"
  "command_log (final_state (speak_random k e s)) = command_log s"
  by (simp_all add: speak_random_def split: sum.splits)

lemma keep_change_wake_word:
  "last_activation_time (final_state (change_wake_word rt e s)) = last_activation_time s
   \<and> command_log (final_state (change_wake_word rt e s)) = command_log s"
  using listen_for_command_cases
    [of rt "sub_listen e" "speak (JStr ''What would you like to set as the new wake word?'') s"]
  by (elim disjE exE) (simp_all add: change_wake_word_def Let_def)

lemma keep_intent_handler:
  "last_activation_time (final_state (intent_handler rt i e s)) = last_activation_time s
   \<and> command_log (final_state (intent_handler rt i e s)) = command_log s"
proof (cases i)
  case Wikipedia
  from keep_listen_then [of "\<lambda>topic s'. if topic \<noteq> [] then search_wikipedia topic e s' else s'"
      rt "sub_listen e" "speak (JStr ''What would you like to search on Wikipedia?'') s"]
  show ?thesis using Wikipedia by (simp add: keep_search_wikipedia)
next
  case Search
  from keep_listen_then [of "\<lambda>q s'. if q \<noteq> [] then web_search q s' else s'"
      rt "sub_listen e" "speak (JStr ''What do you want to search for on Google?'') s"]
  show ?thesis using Search by (simp add: keep_web_search)
next
  case ChangeWakeWord
  with keep_change_wake_word [of rt e s] show ?thesis
    by (cases "change_wake_word rt e s") auto
qed (simp_all add: keep_speak_random tell_time_def tell_date_def)

text \<open>A handler carries the command log along and never looks at it.\<close>

lemma speak_log: "speak text (s\<lparr>command_log := l\<rparr>) = (speak text s)\<lparr>command_log := l\<rparr>"
  by (simp add: speak_def)

lemma listen_for_command_log:
  "listen_for_command rt heard (s\<lparr>command_log := l\<rparr>) = with_log l (listen_for_command rt heard s)"
  by (cases heard) (simp_all add: listen_for_command_def speak_def Let_def split: sum.splits)

lemma search_wikipedia_log:
  "search_wikipedia topic e (s\<lparr>command_log := l\<rparr>) =
     (search_wikipedia topic e s)\<lparr>command_log := l\<rparr>"
  by (simp add: search_wikipedia_def speak_def split: sum.splits wiki_result.splits)

lemma web_search_log:
  "web_search q (s\<lparr>command_log := l\<rparr>) = (web_search q s)\<lparr>command_log := l\<rparr>"
  by (simp add: web_search_def speak_def Let_def)

lemma speak_random_log:
  "speak_random k e (s\<lparr>command_log := l\<rparr>) = with_log l (speak_random k e s)"
  by (simp add: speak_random_def speak_def split: sum.splits)

lemma change_wake_word_log:
  "change_wake_word rt e (s\<lparr>command_log := l\<rparr>) = with_log l (change_wake_word rt e s)"
proof -
  let ?r = "listen_for_command rt (sub_listen e)
              (speak (JStr ''What would you like to set as the new wake word?'') s)"
  have "change_wake_word rt e (s\<lparr>command_log := l\<rparr>) =
          (case with_log l ?r of
             Inl err \<Rightarrow> Inl err
           | Inr (new_wake_word, s2) \<Rightarrow>
               if new_wake_word \<noteq> []
               then Inr ((), speak (JStr (''Wake word changed to '' @ new_wake_word))
                               (s2\<lparr>wake_word := str_lower rt new_wake_word\<rparr>))
               else Inr ((), s2))"
    by (simp add: change_wake_word_def speak_log listen_for_command_log Let_def)
  also have "\<dots> = with_log l (change_wake_word rt e s)"
    by (cases ?r) (auto simp add: change_wake_word_def Let_def speak_def)
  finally show ?thesis .
qed

lemma intent_handler_log:
  "intent_handler rt i e (s\<lparr>command_log := l\<rparr>) = with_log l (intent_handler rt i e s)"
proof (cases i)
  case Wikipedia
  then show ?thesis
    by (cases "listen_for_command rt (sub_listen e)
                 (speak (JStr ''What would you like to search on Wikipedia?'') s)")
       (auto simp add: speak_log listen_for_command_log search_wikipedia_log)
next
  case Search
  then show ?thesis
    by (cases "listen_for_command rt (sub_listen e)
                 (speak (JStr ''What do you want to search for on Google?'') s)")
       (auto simp add: speak_log listen_for_command_log web_search_log)
next
  case ChangeWakeWord
  then show ?thesis
    by (cases "change_wake_word rt e s") (auto simp add: change_wake_word_log)
qed (simp_all add: speak_random_log tell_time_def tell_date_def speak_def)

lemma intent_handler_log_write:
  "intent_handler rt i (e\<lparr>log_write_ok := b\<rparr>) s = intent_handler rt i e s"
  by (cases i) (simp_all add: speak_random_def search_wikipedia_def tell_time_def tell_date_def
      change_wake_word_def cong: sum.case_cong prod.case_cong if_cong)

lemma intent_handler_keeps_log:
  "with_log (command_log s) (intent_handler rt i e s) = intent_handler rt i e s"
  using intent_handler_log [where rt = rt and i = i and e = e and s = s and l = "command_log s"] by simp

subsection \<open>Resetting the timestamp and logging\<close>

text \<open>
  C6: whatever the utterance and the intent it matches, when \<open>process_command\<close> is done
  the activation time is the current time, and the log has gained the line with the
  timestamp and the raw utterance exactly when \<open>log_commands\<close> is true and the write
  succeeded, and is unchanged otherwise, in particular whenever \<open>log_commands\<close> is
  false. A failed write is swallowed: the call behaves as with a successful write, except
  that the log is as it was. The configuration has to hold the key \<open>log_commands\<close>.
\<close>

theorem process_command_prologue:
  assumes "subscript (config s) ''log_commands'' = Inr flag"
  shows "last_activation_time (final_state (process_command rt query e s)) = clock e
    \<and> command_log (final_state (process_command rt query e s)) =
        (if truthy flag \<and> log_write_ok e
         then command_log s @ [timestamp e @ '': '' @ query @ [CHR 0x0A]]
         else command_log s)
    \<and> process_command rt query (e\<lparr>log_write_ok := False\<rparr>) s =
        with_log (command_log s) (process_command rt query (e\<lparr>log_write_ok := True\<rparr>) s)"
proof -
  have "last_activation_time (final_state (process_command rt query e s)) = clock e"
    using assms
    by (simp add: process_command_dispatch keep_intent_handler prologue_def log_command_def Let_def)
  moreover have "command_log (final_state (process_command rt query e s)) =
        (if truthy flag \<and> log_write_ok e
         then command_log s @ [timestamp e @ '': '' @ query @ [CHR 0x0A]]
         else command_log s)"
    using assms
    by (simp add: process_command_dispatch keep_intent_handler prologue_def log_command_def Let_def)
  moreover have "process_command rt query (e\<lparr>log_write_ok := False\<rparr>) s =
        with_log (command_log s) (process_command rt query (e\<lparr>log_write_ok := True\<rparr>) s)"
    using assms intent_handler_keeps_log
      [where rt = rt and s = "s\<lparr>last_activation_time := clock e\<rparr>"
        and i = "select_intent query" and e = e]
    by (simp add: process_command_dispatch prologue_def log_command_def intent_handler_log Let_def
        intent_handler_log_write with_log_twice)
  ultimately show ?thesis by blast
qed

theorem process_command_prologue_witness:
  "last_activation_time (final_state (process_command ascii_runtime ''what time is it'' quiet_env awake)) = 5
   \<and> command_log (final_state (process_command ascii_runtime ''what time is it'' quiet_env awake)) =
       [''2024-01-01 12:00:00: what time is it'' @ [CHR 0x0A]]
   \<and> command_log (final_state (process_command ascii_runtime ''what time is it'' quiet_env
        (awake\<lparr>config := JObj [(''language'', JStr ''en-US''), (''log_commands'', JBool False)]\<rparr>)))
       = []
   \<and> process_command ascii_runtime ''what time is it'' (quiet_env\<lparr>log_write_ok := False\<rparr>) awake =
       with_log [] (process_command ascii_runtime ''what time is it'' (quiet_env\<lparr>log_write_ok := True\<rparr>) awake)"
  using process_command_prologue [of awake "JBool True" ascii_runtime "''what time is it''" quiet_env]
    process_command_prologue [of "awake\<lparr>config := JObj [(''language'', JStr ''en-US''),
      (''log_commands'', JBool False)]\<rparr>" "JBool False" ascii_runtime "''what time is it''" quiet_env]
  by (simp add: default_log_commands quiet_env_def)

subsection \<open>Exit\<close>

lemma prologue_fields [simp]:
  "wake_word (prologue q e flag s) = wake_word s" "config (prologue q e flag s) = config s"
  "is_active (prologue q e flag s) = is_active s" "timeout (prologue q e flag s) = timeout s"
  "responses (prologue q e flag s) = responses s" "spoken (prologue q e flag s) = spoken s"
  by (simp_all add: prologue_def log_command_def Let_def)

lemma select_change: "select_intent ''change wake word'' = ChangeWakeWord"
  by (simp add: select_intent_def intent_table_def)

text \<open>
  C8: for every utterance that contains "exit", "goodbye" or "bye", the dispatcher
  speaks the farewell, makes the session idle and returns true, the signal to continue;
  and a pass of the loop in which an active session hears such a command ends without an
  exception, with the session idle and the loop still running, and goes on to the next
  pass. The configuration has to hold the key \<open>log_commands\<close> (and \<open>language\<close> for the
  listening).
\<close>

theorem exit_keeps_polling:
  assumes "subscript (config s) ''log_commands'' = Inr flag"
      and "str_in ''exit'' query \<or> str_in ''goodbye'' query \<or> str_in ''bye'' query"
  shows "process_command rt query e s =
           Inr (True, (prologue query e flag s)
                  \<lparr>is_active := False,
                   spoken := spoken (prologue query e flag s) @ [JStr ''Goodbye!'']\<rparr>)
    \<and> (is_active s \<and> subscript (config s) ''language'' = Inr l
        \<and> command_listen t = Heard raw \<and> str_lower rt raw = query \<and> command_env t = e
        \<longrightarrow> (\<exists>s'. s' = (speak (JStr ''Goodbye!'')
                            (prologue query e flag (speak (JStr ''How can I help you?'') s)))
                          \<lparr>is_active := False\<rparr>
                  \<and> tick rt t s = Inr ((), s') \<and> \<not> is_active s'
                  \<and> run_loop rt [t] s = Running s'
                  \<and> run_loop rt (t # ts) s = run_loop rt ts s'))"
proof -
  from assms have sel: "select_intent query = Exit"
    by (auto simp add: select_intent_def intent_table_def)
  have pc: "process_command rt query e s =
           Inr (True, (prologue query e flag s)
                  \<lparr>is_active := False,
                   spoken := spoken (prologue query e flag s) @ [JStr ''Goodbye!'']\<rparr>)"
    using assms(1) by (simp add: process_command_dispatch sel speak_def)
  have ne: "query \<noteq> []" using assms(2) by auto
  have "\<exists>s'. s' = (speak (JStr ''Goodbye!'')
                     (prologue query e flag (speak (JStr ''How can I help you?'') s)))
                   \<lparr>is_active := False\<rparr>
          \<and> tick rt t s = Inr ((), s') \<and> \<not> is_active s'
          \<and> run_loop rt [t] s = Running s'
          \<and> run_loop rt (t # ts) s = run_loop rt ts s'"
    if "is_active s" "subscript (config s) ''language'' = Inr l"
       "command_listen t = Heard raw" "str_lower rt raw = query" "command_env t = e"
    using that ne assms(1)
    by (simp add: tick_def listen_for_command_def Let_def process_command_dispatch sel)
  with pc show ?thesis by blast
qed

theorem exit_keeps_polling_witness:
  "process_command ascii_runtime ''goodbye'' quiet_env awake =
     Inr (True, awake\<lparr>is_active := False, last_activation_time := 5,
            spoken := [JStr ''Goodbye!''],
            command_log := [''2024-01-01 12:00:00: goodbye'' @ [CHR 0x0A]]\<rparr>)
   \<and> run_loop ascii_runtime [goodbye_tick] awake =
     Running (awake\<lparr>is_active := False, last_activation_time := 5,
                spoken := [JStr ''How can I help you?'', JStr ''Goodbye!''],
                command_log := [''2024-01-01 12:00:00: goodbye'' @ [CHR 0x0A]]\<rparr>)
   \<and> run_loop ascii_runtime [goodbye_tick, silent_tick 6] awake =
     run_loop ascii_runtime [silent_tick 6]
       (awake\<lparr>is_active := False, last_activation_time := 5,
          spoken := [JStr ''How can I help you?'', JStr ''Goodbye!''],
          command_log := [''2024-01-01 12:00:00: goodbye'' @ [CHR 0x0A]]\<rparr>)"
proof -
  have cfg: "subscript (config awake) ''log_commands'' = Inr (JBool True)"
    by (simp add: default_log_commands)
  have hit: "str_in ''exit'' ''goodbye'' \<or> str_in ''goodbye'' ''goodbye'' \<or> str_in ''bye'' ''goodbye''"
    by simp
  from exit_keeps_polling [OF cfg hit, of ascii_runtime quiet_env "JStr ''en-US''" goodbye_tick
      "''Goodbye''" "[silent_tick 6]"]
    exit_keeps_polling [OF cfg hit, of ascii_runtime "quiet_env\<lparr>clock := 5\<rparr>" "JStr ''en-US''"
      goodbye_tick "''Goodbye''" "[silent_tick 6]"]
  show ?thesis
    by (simp add: default_language lower_examples goodbye_tick_def silent_tick_def prologue_def
        log_command_def quiet_env_def awake_def main_assistant_def speak_def Let_def)
qed

subsection \<open>The encyclopedia lookup\<close>

text \<open>
  C9: the lookup handler always ends by speaking one message and raises nothing. It asks
  the encyclopedia for a summary of at most \<open>max_wikipedia_sentences\<close> sentences and
  speaks the summary it gets; an ambiguous topic, a missing page and any other failure
  each have their own message, and the three messages differ. A command of the
  Wikipedia intent returns true without an exception.
\<close>

theorem search_wikipedia_outcomes:
  "(\<exists>message. search_wikipedia topic e s = speak (JStr message) s)
    \<and> (\<forall>n. subscript (config s) ''max_wikipedia_sentences'' = Inr n \<longrightarrow>
          search_wikipedia topic e s =
           speak (JStr (case wikipedia_summary e topic n of
                          Summary summary \<Rightarrow> summary
                        | DisambiguationError \<Rightarrow> ''The topic is ambiguous, please be more specific.''
                        | PageError \<Rightarrow> ''Unfortunately, there is no page with that title.''
                        | OtherException \<Rightarrow> ''Sorry, something went wrong with the Wikipedia search.'')) s)
    \<and> distinct [''The topic is ambiguous, please be more specific.'',
                 ''Unfortunately, there is no page with that title.'',
                 ''Sorry, something went wrong with the Wikipedia search.'']
    \<and> (\<forall>flag l query. subscript (config s) ''log_commands'' = Inr flag
        \<and> subscript (config s) ''language'' = Inr l \<and> select_intent query = Wikipedia
        \<longrightarrow> (\<exists>s'. process_command rt query e s = Inr (True, s')))"
proof -
  have a: "\<exists>message. search_wikipedia topic e s = speak (JStr message) s"
    by (auto simp add: search_wikipedia_def split: sum.splits wiki_result.splits)
  have b: "search_wikipedia topic e s =
           speak (JStr (case wikipedia_summary e topic n of
                          Summary summary \<Rightarrow> summary
                        | DisambiguationError \<Rightarrow> ''The topic is ambiguous, please be more specific.''
                        | PageError \<Rightarrow> ''Unfortunately, there is no page with that title.''
                        | OtherException \<Rightarrow> ''Sorry, something went wrong with the Wikipedia search.'')) s"
    if "subscript (config s) ''max_wikipedia_sentences'' = Inr n" for n
    using that by (simp add: search_wikipedia_def split: wiki_result.splits)
  have c: "\<exists>s'. process_command rt query e s = Inr (True, s')"
    if "subscript (config s) ''log_commands'' = Inr flag"
       "subscript (config s) ''language'' = Inr l" "select_intent query = Wikipedia"
    for flag l query
    using that
    by (cases "sub_listen e")
       (simp_all add: process_command_dispatch listen_for_command_def Let_def)
  from a b c show ?thesis by simp
qed

theorem search_wikipedia_outcomes_witness:
  "search_wikipedia ''python'' (quiet_env\<lparr>wikipedia_summary := example_wiki\<rparr>) awake =
     awake\<lparr>spoken := [JStr ''Python is a programming language. It was first released in 1991.'']\<rparr>
   \<and> search_wikipedia ''mercury'' (quiet_env\<lparr>wikipedia_summary := example_wiki\<rparr>) awake =
     awake\<lparr>spoken := [JStr ''The topic is ambiguous, please be more specific.'']\<rparr>
   \<and> search_wikipedia ''qwertyuiop'' (quiet_env\<lparr>wikipedia_summary := example_wiki\<rparr>) awake =
     awake\<lparr>spoken := [JStr ''Unfortunately, there is no page with that title.'']\<rparr>
   \<and> search_wikipedia ''moon'' (quiet_env\<lparr>wikipedia_summary := example_wiki\<rparr>) awake =
     awake\<lparr>spoken := [JStr ''Sorry, something went wrong with the Wikipedia search.'']\<rparr>"
  using
    search_wikipedia_outcomes [of "''python''" "quiet_env\<lparr>wikipedia_summary := example_wiki\<rparr>" awake]
    search_wikipedia_outcomes [of "''mercury''" "quiet_env\<lparr>wikipedia_summary := example_wiki\<rparr>" awake]
    search_wikipedia_outcomes [of "''qwertyuiop''" "quiet_env\<lparr>wikipedia_summary := example_wiki\<rparr>" awake]
    search_wikipedia_outcomes [of "''moon''" "quiet_env\<lparr>wikipedia_summary := example_wiki\<rparr>" awake]
  by (simp add: default_max_sentences example_wiki_def speak_def)

subsection \<open>Changing the wake word\<close>

lemma lower_laws_idem: "lower_laws rt \<Longrightarrow> str_lower rt (str_lower rt x) = str_lower rt x"
  by (simp add: lower_laws_def)

lemma lower_laws_Nil: "lower_laws rt \<Longrightarrow> (str_lower rt x = []) = (x = [])"
  by (simp add: lower_laws_def)

text \<open>
  C7: a command of the change-wake-word intent returns true; when the reply to its prompt
  is a non-empty utterance, the wake word becomes that reply lowercased, and from then on
  an utterance is detected exactly when it contains the reply, case ignored; when the
  reply is empty or nothing usable is heard, the wake word stays as it was. Of
  \<open>str.lower\<close> it is used that lowercasing twice is lowercasing once and that only the
  empty string is lowercased to the empty string.
\<close>

theorem change_wake_word_round_trip:
  assumes "subscript (config s) ''log_commands'' = Inr flag"
      and "subscript (config s) ''language'' = Inr l"
      and "select_intent query = ChangeWakeWord"
      and "lower_laws rt"
  shows "\<exists>s'. process_command rt query e s = Inr (True, s')
      \<and> (\<forall>reply. sub_listen e = Heard reply \<and> reply \<noteq> [] \<longrightarrow>
            wake_word s' = str_lower rt reply
            \<and> (\<forall>text now. returned (listen_for_wake_word rt (Heard text) now s')
                  = Some (occurs_ignoring_case rt reply text)))
      \<and> ((\<forall>reply. sub_listen e = Heard reply \<longrightarrow> reply = []) \<longrightarrow> wake_word s' = wake_word s)"
proof (cases "sub_listen e")
  case (Heard reply)
  show ?thesis
  proof (cases "reply = []")
    case True
    with Heard assms show ?thesis
      by (simp add: process_command_dispatch change_wake_word_def listen_for_command_def
          lower_laws_Nil Let_def)
  next
    case False
    with Heard assms show ?thesis
      by (simp add: process_command_dispatch change_wake_word_def listen_for_command_def
          listen_for_wake_word_def returned_def occurs_ignoring_case_def str_in_sublist
          lower_laws_idem lower_laws_Nil Let_def)
  qed
qed (use assms in \<open>simp_all add: process_command_dispatch change_wake_word_def
       listen_for_command_def Let_def\<close>)

theorem change_wake_word_round_trip_witness:
  "\<exists>s'. process_command ascii_runtime ''change wake word''
            (quiet_env\<lparr>sub_listen := Heard ''Computer''\<rparr>) awake = Inr (True, s')
      \<and> wake_word s' = ''computer''
      \<and> returned (listen_for_wake_word ascii_runtime (Heard ''ok computer do this'') 9 s')
          = Some True
      \<and> returned (listen_for_wake_word ascii_runtime (Heard ''hey assistant'') 9 s')
          = Some False"
proof -
  have cfg: "subscript (config awake) ''log_commands'' = Inr (JBool True)"
    "subscript (config awake) ''language'' = Inr (JStr ''en-US'')"
    by (simp_all add: default_log_commands default_language)
  from change_wake_word_round_trip [OF cfg select_change lower_laws_ascii,
      of "quiet_env\<lparr>sub_listen := Heard ''Computer''\<rparr>"]
  obtain s' where s':
    "process_command ascii_runtime ''change wake word''
       (quiet_env\<lparr>sub_listen := Heard ''Computer''\<rparr>) awake = Inr (True, s')"
    "wake_word s' = str_lower ascii_runtime ''Computer''"
    "\<And>text now. returned (listen_for_wake_word ascii_runtime (Heard text) now s')
       = Some (occurs_ignoring_case ascii_runtime ''Computer'' text)"
    by auto
  have "str_in (ascii_lower ''Computer'') (ascii_lower ''ok computer do this'')"
    by code_simp
  then have "occurs_ignoring_case ascii_runtime ''Computer'' ''ok computer do this''"
    by (simp add: occurs_ignoring_case_def str_in_sublist)
  moreover have "\<not> str_in (ascii_lower ''Computer'') (ascii_lower ''hey assistant'')"
    by code_simp
  then have "\<not> occurs_ignoring_case ascii_runtime ''Computer'' ''hey assistant''"
    by (simp add: occurs_ignoring_case_def str_in_sublist)
  ultimately show ?thesis
    using s' by (auto simp add: lower_examples)
qed

subsection \<open>The wake word stays lowercase\<close>


















end
